theory Spec2Isabelle
  imports Main "HOL-Library.Word"
begin

section \<open>JavaScript values\<close>

text \<open>
  The user model, the user controller and the browser-side user object work on untyped
  JavaScript values. A value is \<open>undefined\<close>, \<open>null\<close>, a boolean, an (integral) number, a
  string, an array, a plain object, or a model instance (an object that carries a
  \<open>sanitise\<close> method; the user model is the one of the repository). Objects keep their keys
  in insertion order, so they are association lists. Strings are lists of 8-bit
  characters (ASCII text: a character is a code unit, and the letters and the white space
  are ASCII's); a thrown \<open>TypeError\<close> is the left summand of a result.

  The definitions carry the names of the source. An identifier starts with a letter, so
  a private method \<open>_x\<close> of the controller is \<open>priv_x\<close> and \<open>__update\<close> is \<open>priv_update\<close>; the
  browser object's \<open>get\<close>, \<open>set\<close>, \<open>emit\<close> and \<open>exists\<close> are \<open>eu_get\<close>, \<open>eu_set\<close>, \<open>eu_emit\<close> and
  \<open>exists_user\<close>, and the model's \<open>set\<close> is \<open>put\<close>.
\<close>

datatype jsval =
    JUndefined
  | JNull
  | JBool bool
  | JNum int
  | JStr string
  | JArr "jsval list"
  | JObj "(string \<times> jsval) list"
  | JModel "(string \<times> jsval) list"

type_synonym fields = "(string \<times> jsval) list"

datatype error = TypeError

text \<open>ToBoolean, and the operator \<open>a || b\<close>.\<close>

fun truthy :: "jsval \<Rightarrow> bool" where
  "truthy JUndefined = False"
| "truthy JNull = False"
| "truthy (JBool b) = b"
| "truthy (JNum n) = (n \<noteq> 0)"
| "truthy (JStr s) = (s \<noteq> [])"
| "truthy (JArr vs) = True"
| "truthy (JObj kvs) = True"
| "truthy (JModel kvs) = True"

definition js_or :: "jsval \<Rightarrow> jsval \<Rightarrow> jsval" where
  "js_or a b = (if truthy a then a else b)"

text \<open>\<open>String.prototype.trim\<close>: white space (space, tab, line feed, vertical tab, form
  feed, carriage return) is stripped at both ends.\<close>

definition is_space :: "char \<Rightarrow> bool" where
  "is_space c = (c \<in> {CHR '' '', CHR 0x09, CHR 0x0A, CHR 0x0B, CHR 0x0C, CHR 0x0D})"

definition trim :: "string \<Rightarrow> string" where
  "trim s = rev (dropWhile is_space (rev (dropWhile is_space s)))"

text \<open>\<open>v.trim()\<close> on an arbitrary value: only a string has the method.\<close>

fun str_trim :: "jsval \<Rightarrow> error + string" where
  "str_trim (JStr s) = Inr (trim s)"
| "str_trim v = Inl TypeError"

text \<open>ToString, as a template literal and \<open>toString()\<close> apply it.\<close>

fun show_nat :: "nat \<Rightarrow> string" where
  "show_nat n =
     (if n < 10 then [''0123456789'' ! n]
      else show_nat (n div 10) @ [''0123456789'' ! (n mod 10)])"

declare show_nat.simps [simp del]

definition show_int :: "int \<Rightarrow> string" where
  "show_int i = (if i < 0 then CHR ''-'' # show_nat (nat (- i)) else show_nat (nat i))"

fun join_comma :: "string list \<Rightarrow> string" where
  "join_comma [] = []"
| "join_comma [s] = s"
| "join_comma (s # t # ss) = s @ '','' @ join_comma (t # ss)"

fun to_string :: "jsval \<Rightarrow> string" where
  "to_string JUndefined = ''undefined''"
| "to_string JNull = ''null''"
| "to_string (JBool b) = (if b then ''true'' else ''false'')"
| "to_string (JNum n) = show_int n"
| "to_string (JStr s) = s"
| "to_string (JArr vs) =
     join_comma (map (\<lambda>v. if v = JUndefined \<or> v = JNull then [] else to_string v) vs)"
| "to_string (JObj kvs) = ''[object Object]''"
| "to_string (JModel kvs) = ''[object Object]''"

section \<open>The user model\<close>

text \<open>
  \<open>this.get(key)\<close> and \<open>this.set(key, value)\<close> of the model base class read and write the
  instance's data; a key that was never set reads as \<open>undefined\<close>. \<open>put\<close> is also the
  assignment \<open>obj[key] = value\<close> on an object under construction: an existing key keeps
  its place, a new one goes last.
\<close>

definition get :: "fields \<Rightarrow> string \<Rightarrow> jsval" where
  "get u k = (case map_of u k of None \<Rightarrow> JUndefined | Some v \<Rightarrow> v)"

fun put :: "string \<Rightarrow> 'a \<Rightarrow> (string \<times> 'a) list \<Rightarrow> (string \<times> 'a) list" where
  "put k v [] = [(k, v)]"
| "put k v (p # ps) = (if fst p = k then (k, v) # ps else p # put k v ps)"

subsection \<open>\<open>User.name\<close>\<close>

text \<open>
  \<^verbatim>\<open>const name = this.get('name') || `${this.get('first') || ''} ${this.get('last') || ''}`;\<close>
  \<^verbatim>\<open>return (!name.trim().length ? (this.get('username') || this.get('email')) : name).trim();\<close>
\<close>

definition name :: "fields \<Rightarrow> error + string" where
  "name u =
     (let name0 = js_or (get u ''name'')
            (JStr (to_string (js_or (get u ''first'') (JStr ''''))
                   @ '' '' @ to_string (js_or (get u ''last'') (JStr ''''))))
      in case str_trim name0 of
           Inl e \<Rightarrow> Inl e
         | Inr t \<Rightarrow>
             if length t = 0 then str_trim (js_or (get u ''username'') (get u ''email''))
             else Inr t)"

subsection \<open>\<open>User.authenticate\<close>\<close>

text \<open>
  The keyed digest is Node's \<open>crypto\<close>: \<open>createHmac('sha256', key).update(msg)\<close> is a
  parameter \<open>H key msg\<close> giving the digest's bytes, and \<open>digest('hex')\<close> writes every byte
  as two lowercase hexadecimal digits.
\<close>

type_synonym hmac = "string \<Rightarrow> string \<Rightarrow> 8 word list"

definition hex_digit :: "nat \<Rightarrow> char" where
  "hex_digit n = ''0123456789abcdef'' ! n"

definition hex_byte :: "8 word \<Rightarrow> string" where
  "hex_byte b = [hex_digit (unat b div 16), hex_digit (unat b mod 16)]"

definition digest_hex :: "8 word list \<Rightarrow> string" where
  "digest_hex bs = concat (map hex_byte bs)"

text \<open>The configuration the module reads: \<open>config.get('secret')\<close>, \<open>'acl.default'\<close>,
  \<open>'acl.admin'\<close> and \<open>'user.fields'\<close> (of each field only its \<open>name\<close> is used). A list that
  is not configured is \<open>None\<close>.\<close>

record config =
  secret :: string
  acl_default :: "fields list option"
  acl_admin :: "fields list option"
  user_fields :: "string list option"

text \<open>The result of \<open>authenticate\<close>: \<open>true\<close>, or the object \<open>{info, error: true}\<close>.\<close>

datatype verdict = Accepted | Rejected string

text \<open>
  \<^verbatim>\<open>const hash = this.get('hash');\<close>
  \<^verbatim>\<open>const check = crypto.createHmac('sha256', config.get('secret')).update(password).digest('hex');\<close>
  \<^verbatim>\<open>if (check !== hash) return { info : 'Incorrect password', error : true };\<close>
  \<^verbatim>\<open>return true;\<close>
  The method returns its verdict together with the instance as it leaves it.
\<close>

definition authenticate :: "hmac \<Rightarrow> config \<Rightarrow> fields \<Rightarrow> string \<Rightarrow> verdict \<times> fields" where
  "authenticate H cfg u password =
     (let hash = get u ''hash'';
          check = digest_hex (H (secret cfg) password)
      in if JStr check \<noteq> hash then (Rejected ''Incorrect password'', u)
         else (Accepted, u))"

subsection \<open>\<open>User.sanitise\<close>\<close>

text \<open>
  The projection \<open>sanitise\<close> builds. A value it copies as stored is \<open>Raw\<close>; an object
  built by a call of \<open>sanitise\<close> (the instance's own, or a nested collaborator's) is
  \<open>Projected\<close>; the array built by mapping over a stored array is \<open>Seq\<close>.
\<close>

datatype proj =
    Raw jsval
  | Projected "(string \<times> proj) list"
  | Seq "proj list"

type_synonym pobj = "(string \<times> proj) list"

text \<open>
  A pre-handler of \<open>eden.hook('user.sanitise', {sanitised, user})\<close>: it receives the
  projection and the instance and may rewrite the projection. The handlers are
  registered by other bundles; this repository registers none.
\<close>

type_synonym sanitise_hook = "pobj \<Rightarrow> fields \<Rightarrow> pobj"

definition public_fields :: "config \<Rightarrow> string list" where
  "public_fields cfg = (case user_fields cfg of None \<Rightarrow> [] | Some fs \<Rightarrow> fs)"

text \<open>The object literal \<open>sanitise\<close> starts from; \<open>n\<close> is the result of \<open>this.name()\<close>.\<close>

definition base_projection :: "fields \<Rightarrow> string \<Rightarrow> pobj" where
  "base_projection u n =
     (let i = (if truthy (get u ''_id'') then JStr (to_string (get u ''_id'')) else JNull)
      in [(''id'', Raw i), (''_id'', Raw i), (''name'', Raw (JStr n)),
          (''created_at'', Raw (get u ''created_at'')),
          (''updated_at'', Raw (get u ''updated_at''))])"

lemma size_get_less: "size (get u k) < Suc (size_list (size_prod (\<lambda>_. 0) size) u)"
  by (induction u) (auto simp: get_def split: option.splits)

lemma size_get_Model:
  "get u k = JModel m \<Longrightarrow>
   size_list (size_prod (\<lambda>_. 0) size) m < size_list (size_prod (\<lambda>_. 0) size) u"
  using size_get_less[of u k] by simp

lemma size_get_Arr:
  "get u k = JArr vs \<Longrightarrow> size_list size vs < size_list (size_prod (\<lambda>_. 0) size) u"
  using size_get_less[of u k] by simp

text \<open>
  \<open>sanitise\<close> is the method; \<open>sanitise_fields\<close> is its loop over the configured fields,
  with the projection built so far; \<open>sanitise_each\<close> is the \<open>map\<close> over a stored array.
  For a field \<open>f\<close> with stored value \<open>v\<close>:
  \<^item> \<open>v && v.sanitise ? await v.sanitise() : v\<close>: a model instance is replaced by its own
    projection; a plain object whose \<open>sanitise\<close> property is truthy is called and, not
    being a function, throws; every other value is kept;
  \<^item> \<open>Array.isArray(v) ? v.map(val => val.sanitise ? val.sanitise() : val) : v\<close>: in an
    array, \<open>val.sanitise\<close> throws on \<open>undefined\<close> and \<open>null\<close>, a model instance is
    projected, every other element is kept (an inner array or a plain object as it is).
  A stored value is a finite tree, so the recursion through nested instances ends.
\<close>

function sanitise :: "sanitise_hook list \<Rightarrow> config \<Rightarrow> fields \<Rightarrow> error + pobj"
  and sanitise_fields ::
    "sanitise_hook list \<Rightarrow> config \<Rightarrow> fields \<Rightarrow> string list \<Rightarrow> pobj \<Rightarrow> error + pobj"
  and sanitise_each :: "sanitise_hook list \<Rightarrow> config \<Rightarrow> jsval list \<Rightarrow> error + proj list"
where
  "sanitise hs cfg u =
     (case name u of
        Inl e \<Rightarrow> Inl e
      | Inr n \<Rightarrow>
          (case sanitise_fields hs cfg u (public_fields cfg) (base_projection u n) of
             Inl e \<Rightarrow> Inl e
           | Inr sanitised \<Rightarrow> Inr (fold (\<lambda>h s. h s u) hs sanitised)))"
| "sanitise_fields hs cfg u [] sanitised = Inr sanitised"
| "sanitise_fields hs cfg u (f # fs) sanitised =
     (case get u f of
        JModel m \<Rightarrow>
          (case sanitise hs cfg m of
             Inl e \<Rightarrow> Inl e
           | Inr s \<Rightarrow> sanitise_fields hs cfg u fs (put f (Projected s) sanitised))
      | JArr vs \<Rightarrow>
          (case sanitise_each hs cfg vs of
             Inl e \<Rightarrow> Inl e
           | Inr ps \<Rightarrow> sanitise_fields hs cfg u fs (put f (Seq ps) sanitised))
      | JObj kvs \<Rightarrow>
          if truthy (get kvs ''sanitise'') then Inl TypeError
          else sanitise_fields hs cfg u fs (put f (Raw (JObj kvs)) sanitised)
      | v \<Rightarrow> sanitise_fields hs cfg u fs (put f (Raw v) sanitised))"
| "sanitise_each hs cfg [] = Inr []"
| "sanitise_each hs cfg (v # vs) =
     (case v of
        JUndefined \<Rightarrow> Inl TypeError
      | JNull \<Rightarrow> Inl TypeError
      | JModel m \<Rightarrow>
          (case sanitise hs cfg m of
             Inl e \<Rightarrow> Inl e
           | Inr s \<Rightarrow>
               (case sanitise_each hs cfg vs of
                  Inl e \<Rightarrow> Inl e
                | Inr ps \<Rightarrow> Inr (Projected s # ps)))
      | JObj kvs \<Rightarrow>
          if truthy (get kvs ''sanitise'') then Inl TypeError
          else (case sanitise_each hs cfg vs of
                  Inl e \<Rightarrow> Inl e
                | Inr ps \<Rightarrow> Inr (Raw v # ps))
      | _ \<Rightarrow>
          (case sanitise_each hs cfg vs of
             Inl e \<Rightarrow> Inl e
           | Inr ps \<Rightarrow> Inr (Raw v # ps)))"
  by pat_completeness auto
termination
  by (relation "inv_image (less_than <*lex*> less_than)
        (\<lambda>x. case x of
            Inl (hs, cfg, u) \<Rightarrow>
              (size_list (size_prod (\<lambda>_. 0) size) u, Suc (length (public_fields cfg)))
          | Inr (Inl (hs, cfg, u, fs, s)) \<Rightarrow>
              (size_list (size_prod (\<lambda>_. 0) size) u, length fs)
          | Inr (Inr (hs, cfg, vs)) \<Rightarrow> (size_list size vs, 0))")
     (auto dest: size_get_Model size_get_Arr)



section \<open>Collaborators of the controller\<close>

subsection \<open>The regular expression \<open>new RegExp('^' + escapeRegex(email) + '$', 'i')\<close>\<close>

text \<open>
  \<open>escapeRegex\<close> is the package \<open>escape-string-regexp\<close>: it puts a backslash before each of
  \<open>| \ { } ( ) [ ] ^ $ + * ? .\<close> and writes \<open>-\<close> as \<open>\x2d\<close>.
\<close>

definition syntax_chars :: "char list" where
  "syntax_chars = CHR 0x5C # ''|{}()[]^$+*?.''"

fun escapeRegex :: "string \<Rightarrow> string" where
  "escapeRegex [] = []"
| "escapeRegex (c # cs) =
     (if c \<in> set syntax_chars then CHR 0x5C # c # escapeRegex cs
      else if c = CHR ''-'' then CHR 0x5C # ''x2d'' @ escapeRegex cs
      else c # escapeRegex cs)"

text \<open>
  The fragment of ECMAScript patterns that such a pattern can be: the assertions \<open>^\<close>
  and \<open>$\<close> (no \<open>m\<close> flag: start and end of the input), a character, an escaped syntax
  character, and \<open>\xHH\<close>. Any other pattern is outside the fragment (\<open>None\<close>).
\<close>

datatype re_atom = Bol | Eol | Lit char

definition nibble :: "char \<Rightarrow> (bool \<times> bool \<times> bool \<times> bool) option" where
  "nibble = map_of
     [(CHR ''0'', (False, False, False, False)), (CHR ''1'', (True, False, False, False)),
      (CHR ''2'', (False, True, False, False)), (CHR ''3'', (True, True, False, False)),
      (CHR ''4'', (False, False, True, False)), (CHR ''5'', (True, False, True, False)),
      (CHR ''6'', (False, True, True, False)), (CHR ''7'', (True, True, True, False)),
      (CHR ''8'', (False, False, False, True)), (CHR ''9'', (True, False, False, True)),
      (CHR ''a'', (False, True, False, True)), (CHR ''b'', (True, True, False, True)),
      (CHR ''c'', (False, False, True, True)), (CHR ''d'', (True, False, True, True)),
      (CHR ''e'', (False, True, True, True)), (CHR ''f'', (True, True, True, True)),
      (CHR ''A'', (False, True, False, True)), (CHR ''B'', (True, True, False, True)),
      (CHR ''C'', (False, False, True, True)), (CHR ''D'', (True, False, True, True)),
      (CHR ''E'', (False, True, True, True)), (CHR ''F'', (True, True, True, True))]"

definition hex_char :: "char \<Rightarrow> char \<Rightarrow> char option" where
  "hex_char hi lo =
     (case (nibble hi, nibble lo) of
        (Some (h0, h1, h2, h3), Some (l0, l1, l2, l3)) \<Rightarrow> Some (Char l0 l1 l2 l3 h0 h1 h2 h3)
      | _ \<Rightarrow> None)"

fun re_parse :: "string \<Rightarrow> re_atom list option" where
  "re_parse [] = Some []"
| "re_parse (c # cs) =
     (if c = CHR 0x5C then
        (case cs of
           [] \<Rightarrow> None
         | d # ds \<Rightarrow>
             if d = CHR ''x'' then
               (case ds of
                  hi # lo # r \<Rightarrow>
                    (case hex_char hi lo of
                       Some x \<Rightarrow> map_option (Cons (Lit x)) (re_parse r)
                     | None \<Rightarrow> None)
                | _ \<Rightarrow> None)
             else if d \<in> set syntax_chars \<or> d = CHR ''-'' \<or> d = CHR ''/'' then
               map_option (Cons (Lit d)) (re_parse ds)
             else None)
      else if c = CHR ''^'' then map_option (Cons Bol) (re_parse cs)
      else if c = CHR ''$'' then map_option (Cons Eol) (re_parse cs)
      else if c \<in> set syntax_chars then None
      else map_option (Cons (Lit c)) (re_parse cs))"

text \<open>
  With the flag \<open>i\<close> two characters match when their canonical forms, the upper-case
  forms, are equal; on 8-bit characters these are the ASCII letters' ones.
\<close>

definition canonicalize :: "char \<Rightarrow> char" where
  "canonicalize c =
     (case map_of (zip ''abcdefghijklmnopqrstuvwxyz'' ''ABCDEFGHIJKLMNOPQRSTUVWXYZ'') c of
        Some d \<Rightarrow> d
      | None \<Rightarrow> c)"

text \<open>\<open>match_here\<close> matches the atoms at the current position (\<open>at_start\<close>: it is the
  start of the input); \<open>search\<close> tries every position, as \<open>RegExp.prototype.test\<close> does.\<close>

fun match_here :: "re_atom list \<Rightarrow> bool \<Rightarrow> string \<Rightarrow> bool" where
  "match_here [] at_start s = True"
| "match_here (Bol # r) at_start s = (at_start \<and> match_here r at_start s)"
| "match_here (Eol # r) at_start s = (s = [] \<and> match_here r at_start s)"
| "match_here (Lit c # r) at_start [] = False"
| "match_here (Lit c # r) at_start (d # s) =
     (canonicalize c = canonicalize d \<and> match_here r False s)"

fun search :: "re_atom list \<Rightarrow> bool \<Rightarrow> string \<Rightarrow> bool" where
  "search r at_start [] = match_here r at_start []"
| "search r at_start (d # s) = (match_here r at_start (d # s) \<or> search r False s)"

definition regex_test_i :: "string \<Rightarrow> string \<Rightarrow> bool option" where
  "regex_test_i pattern s = map_option (\<lambda>r. search r True s) (re_parse pattern)"

text \<open>A query \<open>{email: regex}\<close> selects the records whose email is a string the
  expression matches.\<close>

definition email_pattern :: "string \<Rightarrow> string" where
  "email_pattern email = ''^'' @ escapeRegex email @ ''$''"

definition email_matches :: "string \<Rightarrow> fields \<Rightarrow> bool" where
  "email_matches pattern u =
     (case get u ''email'' of
        JStr s \<Rightarrow> regex_test_i pattern s = Some True
      | _ \<Rightarrow> False)"


subsection \<open>The database\<close>

text \<open>
  The collections of the models \<open>User\<close>, \<open>Acl\<close> and \<open>Login\<close>, in insertion order, and the
  source of fresh ids. \<open>findOne\<close> is \<^const>\<open>find\<close> on a collection, \<open>count\<close> its length.
  Saving a new instance (\<open>new M(...)\<close>, then \<open>save\<close>) gives it a fresh \<open>_id\<close> and appends it;
  saving a loaded instance writes it over the stored record with its \<open>_id\<close>.
\<close>

record db =
  users :: "fields list"
  acls :: "fields list"
  logins :: "fields list"
  next_id :: nat

definition insert_model :: "fields \<Rightarrow> fields list \<Rightarrow> nat \<Rightarrow> fields \<times> fields list" where
  "insert_model m coll n = (let m' = put ''_id'' (JStr (show_nat n)) m in (m', coll @ [m']))"


subsection \<open>Requests, responses and events\<close>

text \<open>
  Of a request the controller reads the body, the query, the session id, the header
  \<open>x-forwarded-for\<close> and the remote address. What an action does to the response, the
  session, the event bus and the socket is recorded in order: \<open>req.alert\<close>, \<open>res.render\<close>,
  \<open>res.redirect\<close>, a model's \<open>save\<close> (with the collection and the instance as written),
  \<open>req.login\<close>, \<open>eden.emit\<close> (with the user of the event), \<open>socket.session\<close>, and an
  exception thrown inside a callback.
\<close>

record request =
  body :: fields
  query :: fields
  session_id :: string
  forwarded_for :: jsval
  remote_address :: string

datatype effect =
    Alert string string fields
  | Render string fields
  | Redirect jsval
  | Save string fields
  | Login fields
  | Emit string fields
  | Push string string proj
  | Uncaught error

record world =
  store :: db
  trace :: "effect list"

definition respond :: "world \<Rightarrow> effect list \<Rightarrow> world" where
  "respond w es = w\<lparr>trace := trace w @ es\<rparr>"

definition save_new_user :: "fields \<Rightarrow> world \<Rightarrow> fields \<times> world" where
  "save_new_user m w =
     (let d = store w;
          (m', coll) = insert_model m (users d) (next_id d)
      in (m', \<lparr>store = d\<lparr>users := coll, next_id := Suc (next_id d)\<rparr>,
               trace = trace w @ [Save ''user'' m']\<rparr>))"


definition save_new_login :: "fields \<Rightarrow> world \<Rightarrow> fields \<times> world" where
  "save_new_login m w =
     (let d = store w;
          (m', coll) = insert_model m (logins d) (next_id d)
      in (m', \<lparr>store = d\<lparr>logins := coll, next_id := Suc (next_id d)\<rparr>,
               trace = trace w @ [Save ''login'' m']\<rparr>))"


section \<open>The user controller\<close>

subsection \<open>\<open>_authenticate\<close>\<close>



subsection \<open>\<open>_login\<close>, the listener of \<open>user.login\<close>\<close>

text \<open>\<open>remoteAddress.replace(/^.*:/, '')\<close>: on the first line of the string, everything up
  to its last colon goes.\<close>

definition strip_to_colon :: "string \<Rightarrow> string" where
  "strip_to_colon s =
     (let line = takeWhile (\<lambda>c. c \<noteq> CHR 0x0A \<and> c \<noteq> CHR 0x0D) s;
          rest = takeWhile (\<lambda>c. c \<noteq> CHR '':'') (rev line)
      in if CHR '':'' \<in> set line then drop (length line - length rest) s else s)"

record login_event =
  ev_req :: "request option"
  ev_fail :: jsval
  ev_user :: jsval
  ev_message :: jsval

definition priv_login :: "login_event \<Rightarrow> world \<Rightarrow> world" where
  "priv_login obj w =
     (let login =
            [(''ip'', case ev_req obj of
                        None \<Rightarrow> JBool False
                      | Some req \<Rightarrow>
                          js_or (forwarded_for req) (JStr (strip_to_colon (remote_address req)))),
             (''way'', JStr ''login''),
             (''fail'', JBool (truthy (ev_fail obj))),
             (''user'', ev_user obj),
             (''message'', ev_message obj)]
      in snd (save_new_login login w))"

text \<open>\<open>eden.emit('user.login', {req, user})\<close>: the event, then the listener the controller
  registered on it.\<close>

definition emit_login :: "request \<Rightarrow> fields \<Rightarrow> world \<Rightarrow> world" where
  "emit_login req user w =
     priv_login \<lparr>ev_req = Some req, ev_fail = JUndefined, ev_user = JModel user,
                 ev_message = JUndefined\<rparr>
       (respond w [Emit ''user.login'' user])"

subsection \<open>The hook \<open>user.register\<close>\<close>

text \<open>
  The payload of \<open>eden.hook('user.register', {req, user}, finalizer)\<close>; a pre-handler may
  set \<open>error\<close> on it and write to the candidate. A pre-handler reads the database.

  Modelled from the spec: the dispatcher \<open>eden.hook\<close> belongs to the framework, not to the
  repository. It "runs all pre-handlers sequentially against payload", and a handler
  that sets the flag "short-circuits remaining handlers". For what follows the spec says
  that the finalizer is invoked "only if not prevented" (\<open>Finalizer_unless_vetoed\<close>);
  the finalizer that \<open>registerSubmitAction\<close> passes tests \<open>obj.error\<close> itself, which it can
  only find set under a dispatcher that invokes it all the same (\<open>Finalizer_always\<close>). The
  policy is a parameter. \<open>skipped\<close> is the caller's state when the finalizer did not run.
\<close>

record payload =
  p_req :: request
  p_user :: fields
  p_error :: jsval

type_synonym register_hook = "db \<Rightarrow> payload \<Rightarrow> payload"

datatype dispatch = Finalizer_always | Finalizer_unless_vetoed

fun run_pre :: "register_hook list \<Rightarrow> db \<Rightarrow> payload \<Rightarrow> payload" where
  "run_pre [] d p = p"
| "run_pre (h # hs) d p =
     (let p' = h d p in if truthy (p_error p') then p' else run_pre hs d p')"

definition hook ::
  "dispatch \<Rightarrow> register_hook list \<Rightarrow> db \<Rightarrow> payload \<Rightarrow> (payload \<Rightarrow> 's) \<Rightarrow> (payload \<Rightarrow> 's) \<Rightarrow> 's"
where
  "hook policy hs d p finalizer skipped =
     (let obj = run_pre hs d p
      in if policy = Finalizer_unless_vetoed \<and> truthy (p_error obj) then skipped obj
         else finalizer obj)"

subsection \<open>\<open>_register\<close>, the controller's pre-handler of \<open>user.register\<close>\<close>

definition or_empty :: "'a list option \<Rightarrow> 'a list" where
  "or_empty l = (case l of None \<Rightarrow> [] | Some xs \<Rightarrow> xs)"

text \<open>
  \<^verbatim>\<open>for (let i = 0; i < def.length; i += 1) {\<close>
  \<^verbatim>\<open>  const check = await Acl.findOne({ name : def[i].name });\<close>
  \<^verbatim>\<open>  if (check) acls.push(check);\<close>
  \<^verbatim>\<open>}\<close>
\<close>

fun load_acls :: "fields list \<Rightarrow> fields list \<Rightarrow> fields list \<Rightarrow> fields list" where
  "load_acls coll [] found = found"
| "load_acls coll (d # def) found =
     (case find (\<lambda>r. get r ''name'' = get d ''name'') coll of
        None \<Rightarrow> load_acls coll def found
      | Some check \<Rightarrow> load_acls coll def (found @ [check]))"

text \<open>
  \<^verbatim>\<open>let def = (config.get('acl.default') || []).slice(0);\<close>
  \<^verbatim>\<open>const count = await User.count();\<close>
  \<^verbatim>\<open>if (count === 0) def.push(...(config.get('acl.admin') || []).slice(0));\<close>
  \<^verbatim>\<open>...\<close>
  \<^verbatim>\<open>user.set('acl', acls);\<close>
\<close>

definition priv_register :: "config \<Rightarrow> register_hook" where
  "priv_register cfg d obj =
     (let def = or_empty (acl_default cfg);
          count = length (users d);
          def = (if count = 0 then def @ or_empty (acl_admin cfg) else def);
          found = load_acls (acls d) def []
      in obj\<lparr>p_user := put ''acl'' (JArr (map JModel found)) (p_user obj)\<rparr>)"

subsection \<open>\<open>registerSubmitAction\<close>\<close>

definition render_register :: "request \<Rightarrow> effect" where
  "render_register req =
     Render ''register''
       [(''old'', JObj (body req)),
        (''redirect'',
           js_or (get (query req) ''redirect'') (js_or (get (body req) ''redirect'') (JBool False)))]"

text \<open>
  The finalizer passed to the hook. It returns the world, the candidate as it leaves it
  (\<open>save\<close> gives it its id) and the local flag \<open>prevented\<close>.
  \<^verbatim>\<open>if (obj.error) { prevented = true; return res.render('register', {...}); }\<close>
  \<^verbatim>\<open>return await user.save(req.user);\<close>
\<close>

definition register_finalizer :: "request \<Rightarrow> world \<Rightarrow> payload \<Rightarrow> world \<times> fields \<times> bool" where
  "register_finalizer req w obj =
     (if truthy (p_error obj) then (respond w [render_register req], p_user obj, True)
      else (let (user, w') = save_new_user (p_user obj) w in (w', user, False)))"

text \<open>
  The callback of \<open>req.login(user, ...)\<close>:
  \<^verbatim>\<open>await req.alert('success', 'You are now successfully registered', { save : true });\<close>
  \<^verbatim>\<open>await this.eden.emit('user.login', { req, user });\<close>
  \<^verbatim>\<open>socket.session(req.sessionID, 'user', await user.sanitise());\<close>
  \<^verbatim>\<open>res.redirect(req.query.redirect || req.body.redirect || '/');\<close>
\<close>

definition register_login ::
  "sanitise_hook list \<Rightarrow> config \<Rightarrow> request \<Rightarrow> fields \<Rightarrow> world \<Rightarrow> world" where
  "register_login shs cfg req user w =
     (let w1 = respond w
            [Login user,
             Alert ''success'' ''You are now successfully registered'' [(''save'', JBool True)]];
          w2 = emit_login req user w1
      in case sanitise shs cfg user of
           Inl e \<Rightarrow> respond w2 [Uncaught e]
         | Inr s \<Rightarrow>
             respond w2
               [Push (session_id req) ''user'' (Projected s),
                Redirect (js_or (get (query req) ''redirect'')
                           (js_or (get (body req) ''redirect'') (JStr ''/'')))])"

text \<open>
  The action. \<open>req.body.email.trim()\<close> and \<open>req.body.password.trim()\<close> throw unless the
  value is a string. \<open>hs\<close> are the pre-handlers registered on \<open>user.register\<close> (the
  controller's \<open>_register\<close> among them), \<open>shs\<close> those on \<open>user.sanitise\<close>.
\<close>

definition registerSubmitAction ::
  "hmac \<Rightarrow> config \<Rightarrow> dispatch \<Rightarrow> register_hook list \<Rightarrow> sanitise_hook list \<Rightarrow>
   request \<Rightarrow> world \<Rightarrow> error + world"
where
  "registerSubmitAction H cfg policy hs shs req w =
     (case get (body req) ''email'' of
        JStr email \<Rightarrow>
          if length (trim email) < 5 then
            Inr (respond w
                   [Alert ''error'' ''your email must be at least 5 characters long'' [],
                    render_register req])
          else
            (case find (email_matches (email_pattern email)) (users (store w)) of
               Some taken \<Rightarrow>
                 Inr (respond w
                        [Alert ''error''
                           (''the email '' @ [CHR 0x22] @ email @ [CHR 0x22] @ '' is already taken'') [],
                         render_register req])
             | None \<Rightarrow>
                 (case get (body req) ''password'' of
                    JStr password \<Rightarrow>
                      if length (trim password) < 5 then
                        Inr (respond w
                               [Alert ''error''
                                  ''your password must be at least 5 characters long'' [],
                                render_register req])
                      else if JStr password \<noteq> get (body req) ''passwordb'' then
                        Inr (respond w
                               [Alert ''error'' ''your passwords do not match'' [],
                                render_register req])
                      else
                        (let hash = digest_hex (H (secret cfg) password);
                             user = put ''hash'' (JStr hash) (put ''email'' (JStr email) []);
                             (w', user', prevented) =
                               hook policy hs (store w)
                                 \<lparr>p_req = req, p_user = user, p_error = JUndefined\<rparr>
                                 (register_finalizer req w)
                                 (\<lambda>obj. (w, p_user obj, False))
                         in if \<not> prevented then Inr (register_login shs cfg req user' w')
                            else Inr w')
                  | _ \<Rightarrow> Inl TypeError))
      | _ \<Rightarrow> Inl TypeError)"

subsection \<open>\<open>resetSubmitAction\<close>\<close>


subsection \<open>\<open>_acl\<close>\<close>



subsection \<open>\<open>listenAction\<close> and \<open>deafenAction\<close>\<close>

text \<open>
  The transport knows which socket is in which room; the registry of the helper \<open>sync\<close>
  holds the registrations (entity id, session id, listen token).

  Modelled from the spec: the helper is not in the repository. \<open>addListener\<close> "registers
  interest", \<open>removeListener\<close> "removes exactly the matching registration"; each is taken
  as one step.

  An action is the list of its steps in program order. Between the call of
  \<open>opts.socket.join\<close> (or \<open>leave\<close>) and the call of the helper the action awaits
  \<open>User.findById(id)\<close>, where the steps of another action can run.
\<close>

record listen_opts =
  socket_id :: string
  session :: string

type_synonym listener = "string \<times> string \<times> string"

record sync_state =
  rooms :: "(string \<times> string) list"
  listeners :: "listener list"

datatype step =
    Join string string
  | Leave string string
  | Add_listener listener
  | Remove_listener listener

fun exec :: "step \<Rightarrow> sync_state \<Rightarrow> sync_state" where
  "exec (Join s r) st = st\<lparr>rooms := List.insert (s, r) (rooms st)\<rparr>"
| "exec (Leave s r) st = st\<lparr>rooms := removeAll (s, r) (rooms st)\<rparr>"
| "exec (Add_listener l) st = st\<lparr>listeners := List.insert l (listeners st)\<rparr>"
| "exec (Remove_listener l) st = st\<lparr>listeners := removeAll l (listeners st)\<rparr>"

text \<open>
  \<^verbatim>\<open>if (!id) return null;\<close>
  \<^verbatim>\<open>opts.socket.join(`user.${id}`);\<close>
  \<^verbatim>\<open>return await syncHelper.addListener(await User.findById(id), { ..., listenID : uuid, sessionID : opts.sessionID });\<close>
\<close>

definition listenAction :: "jsval \<Rightarrow> string \<Rightarrow> listen_opts \<Rightarrow> step list" where
  "listenAction i uuid opts =
     (if \<not> truthy i then []
      else [Join (socket_id opts) (''user.'' @ to_string i),
            Add_listener (to_string i, session opts, uuid)])"

definition deafenAction :: "jsval \<Rightarrow> string \<Rightarrow> listen_opts \<Rightarrow> step list" where
  "deafenAction i uuid opts =
     (if \<not> truthy i then []
      else [Leave (socket_id opts) (''user.'' @ to_string i),
            Remove_listener (to_string i, session opts, uuid)])"

text \<open>The schedules of two actions that run concurrently: every order of their steps
  that keeps each action's own order.\<close>

fun interleavings :: "'a list \<Rightarrow> 'a list \<Rightarrow> 'a list list" where
  "interleavings [] ys = [ys]"
| "interleavings xs [] = [xs]"
| "interleavings (x # xs) (y # ys) =
     map (Cons x) (interleavings xs (y # ys)) @ map (Cons y) (interleavings (x # xs) ys)"

definition run_steps :: "step list \<Rightarrow> sync_state \<Rightarrow> sync_state" where
  "run_steps ss st = fold exec ss st"

text \<open>The two end states the spec allows for a key: registered and joined, or neither.\<close>

definition agree :: "jsval \<Rightarrow> string \<Rightarrow> listen_opts \<Rightarrow> sync_state \<Rightarrow> bool" where
  "agree i uuid opts st =
     (((to_string i, session opts, uuid) \<in> set (listeners st)) =
      ((socket_id opts, ''user.'' @ to_string i) \<in> set (rooms st)))"

section \<open>The browser-side user object\<close>

text \<open>
  \<open>EdenUser\<close> holds \<open>__data\<close> and \<open>__fields\<close>; what it emits (the event and its arguments)
  is recorded in order, and so is the assignment \<open>store.user = builtUser\<close>.
  \<open>dotProp.get\<close> and \<open>dotProp.set\<close> (package \<open>dot-prop\<close>) follow a key, split at its dots,
  through nested plain objects.
\<close>

record eden_user =
  u_data :: fields
  u_fields :: "string list"
  u_events :: "(string \<times> jsval list) list"
  store_user :: bool

fun split_on :: "char \<Rightarrow> string \<Rightarrow> string list" where
  "split_on c [] = [[]]"
| "split_on c (x # xs) =
     (if x = c then [] # split_on c xs
      else (case split_on c xs of [] \<Rightarrow> [[x]] | p # ps \<Rightarrow> (x # p) # ps))"

fun path_get :: "jsval \<Rightarrow> string list \<Rightarrow> jsval" where
  "path_get v [] = v"
| "path_get (JObj kvs) (k # ks) =
     (case map_of kvs k of None \<Rightarrow> JUndefined | Some v \<Rightarrow> path_get v ks)"
| "path_get v (k # ks) = JUndefined"

fun path_set :: "fields \<Rightarrow> string list \<Rightarrow> jsval \<Rightarrow> fields" where
  "path_set kvs [] v = kvs"
| "path_set kvs [k] v = put k v kvs"
| "path_set kvs (k # k' # ks) v =
     put k (JObj (path_set (case map_of kvs k of Some (JObj sub) \<Rightarrow> sub | _ \<Rightarrow> []) (k' # ks) v)) kvs"

text \<open>
  \<^verbatim>\<open>get(key, d): if (!key || !key.length) return this.__data;\<close>
  \<^verbatim>\<open>  const got = dotProp.get(this.__data, key); if (typeof got === 'undefined') return d; return got;\<close>
\<close>

definition eu_get :: "eden_user \<Rightarrow> string \<Rightarrow> jsval \<Rightarrow> jsval" where
  "eu_get st key d =
     (if key = [] then JObj (u_data st)
      else (let got = path_get (JObj (u_data st)) (split_on CHR ''.'' key)
            in if got = JUndefined then d else got))"

definition eu_emit :: "string \<Rightarrow> jsval list \<Rightarrow> eden_user \<Rightarrow> eden_user" where
  "eu_emit ev args st = st\<lparr>u_events := u_events st @ [(ev, args)]\<rparr>"

text \<open>
  \<^verbatim>\<open>set(key, value): dotProp.set(this.__data, key, value);\<close>
  \<^verbatim>\<open>  if (!this.__fields.includes(key)) this.__fields.push(key);\<close>
  \<^verbatim>\<open>  this.emit(key, value);\<close>
  \<^verbatim>\<open>  if (key.includes('.')) this.emit(key.split('.')[0], value);\<close>
\<close>

definition eu_set :: "string \<Rightarrow> jsval \<Rightarrow> eden_user \<Rightarrow> eden_user" where
  "eu_set key v st =
     (let st1 = st\<lparr>u_data := path_set (u_data st) (split_on CHR ''.'' key) v\<rparr>;
          st2 = (if key \<in> set (u_fields st1) then st1
                 else st1\<lparr>u_fields := u_fields st1 @ [key]\<rparr>);
          st3 = eu_emit key [v] st2
      in if CHR ''.'' \<in> set key then eu_emit (hd (split_on CHR ''.'' key)) [v] st3 else st3)"

definition clear :: "eden_user \<Rightarrow> eden_user" where
  "clear st = st\<lparr>u_data := []\<rparr>"

definition exists_user :: "eden_user \<Rightarrow> bool" where
  "exists_user st = truthy (eu_get st ''_id'' JUndefined)"

text \<open>\<open>v.__data\<close>: reading a property of \<open>undefined\<close> or \<open>null\<close> throws; a primitive or an
  array has no such property.\<close>

fun read_data :: "jsval \<Rightarrow> error + jsval" where
  "read_data JUndefined = Inl TypeError"
| "read_data JNull = Inl TypeError"
| "read_data (JObj kvs) = Inr (get kvs ''__data'')"
| "read_data (JModel kvs) = Inr (get kvs ''__data'')"
| "read_data v = Inr JUndefined"

text \<open>\<open>Object.keys(v)\<close> and \<open>v[key]\<close>: the keys of an object, the indices of an array or
  a string, none for another primitive.\<close>

fun own_keys :: "jsval \<Rightarrow> string list" where
  "own_keys (JObj kvs) = remdups (map fst kvs)"
| "own_keys (JModel kvs) = remdups (map fst kvs)"
| "own_keys (JArr vs) = map show_nat [0..<length vs]"
| "own_keys (JStr s) = map show_nat [0..<length s]"
| "own_keys v = []"

fun own_value :: "jsval \<Rightarrow> string \<Rightarrow> jsval" where
  "own_value (JObj kvs) k = get kvs k"
| "own_value (JModel kvs) k = get kvs k"
| "own_value (JArr vs) k = get (zip (map show_nat [0..<length vs]) vs) k"
| "own_value (JStr s) k = get (zip (map show_nat [0..<length s]) (map (\<lambda>c. JStr [c]) s)) k"
| "own_value v k = JUndefined"

text \<open>
  The body of the \<open>forEach\<close> in \<open>__update\<close>; \<open>J\<close> is \<open>JSON.stringify\<close>, a parameter.
  \<^verbatim>\<open>if (JSON.stringify(this.get(key)) !== JSON.stringify(user[key])) this.set(key, user[key]);\<close>
  \<^verbatim>\<open>if (!this.__fields.includes(key)) this.__fields.push(key);\<close>
\<close>

definition update_key :: "(jsval \<Rightarrow> jsval) \<Rightarrow> jsval \<Rightarrow> string \<Rightarrow> eden_user \<Rightarrow> eden_user" where
  "update_key J user key st =
     (let st1 = (if J (eu_get st key JUndefined) \<noteq> J (own_value user key)
                 then eu_set key (own_value user key) st else st)
      in if key \<in> set (u_fields st1) then st1 else st1\<lparr>u_fields := u_fields st1 @ [key]\<rparr>)"

text \<open>
  \<^verbatim>\<open>__update(user) {\<close>
  \<^verbatim>\<open>  if (user.__data) return null;\<close>
  \<^verbatim>\<open>  store.user = builtUser;\<close>
  \<^verbatim>\<open>  if (!user) return this.clear();\<close>
  \<^verbatim>\<open>  Object.keys(user).forEach((key) => { ... });\<close>
  \<^verbatim>\<open>  return this.emit('update');\<close>
  \<^verbatim>\<open>}\<close>
\<close>

definition priv_update :: "(jsval \<Rightarrow> jsval) \<Rightarrow> jsval \<Rightarrow> eden_user \<Rightarrow> error + eden_user" where
  "priv_update J user st =
     (case read_data user of
        Inl e \<Rightarrow> Inl e
      | Inr d \<Rightarrow>
          if truthy d then Inr st
          else (let st1 = st\<lparr>store_user := True\<rparr>
                in if \<not> truthy user then Inr (clear st1)
                   else Inr (eu_emit ''update'' [] (fold (update_key J user) (own_keys user) st1))))"

section \<open>Readings of the specification\<close>

subsection \<open>The display name\<close>









subsection \<open>The digest\<close>

definition lower_hex :: "char set" where
  "lower_hex = set ''0123456789abcdef''"

definition sample_hmac :: hmac where
  "sample_hmac key msg = (if msg = ''secret'' then [0x2a, 0xff] else [0x00, 0x10])"

definition sample_config :: config where
  "sample_config =
     \<lparr>secret = ''k'',
      acl_default = Some [[(''name'', JStr ''user'')]],
      acl_admin = Some [[(''name'', JStr ''admin'')]],
      user_fields = Some [''email'', ''friends'']\<rparr>"

subsection \<open>A sample database\<close>

definition user_x :: fields where
  "user_x = [(''_id'', JStr ''1''), (''email'', JStr ''adaXlovelace@example.com''),
             (''hash'', JStr ''0010'')]"




subsection \<open>The sanitised projection\<close>






subsection \<open>Policy records\<close>

text \<open>The resolved records of a list of configured entries: for each entry in order, the
  (first) stored record of its name, where there is one.\<close>

definition resolved :: "fields list \<Rightarrow> fields list \<Rightarrow> fields list" where
  "resolved coll entries =
     List.map_filter (\<lambda>a. find (\<lambda>r. get r ''name'' = get a ''name'') coll) entries"




definition acl_user :: fields where
  "acl_user = [(''_id'', JStr ''10''), (''name'', JStr ''user''), (''value'', JArr [JStr ''read''])]"

definition acl_db :: "fields list \<Rightarrow> db" where
  "acl_db us = \<lparr>users = us, acls = [acl_user], logins = [], next_id = 11\<rparr>"

definition candidate :: payload where
  "candidate =
     \<lparr>p_req = \<lparr>body = [], query = [], session_id = ''s1'', forwarded_for = JUndefined,
               remote_address = ''::ffff:10.0.0.1''\<rparr>,
      p_user = [(''email'', JStr ''a@b.com'')], p_error = JUndefined\<rparr>"

definition acl_admin_rec :: fields where
  "acl_admin_rec = [(''_id'', JStr ''11''), (''name'', JStr ''admin''), (''value'', JBool True)]"

definition acl_db2 :: "fields list \<Rightarrow> db" where
  "acl_db2 us = \<lparr>users = us, acls = [acl_user, acl_admin_rec], logins = [], next_id = 12\<rparr>"



subsection \<open>The reset token\<close>







subsection \<open>Registration\<close>

text \<open>The request passes the local validations of the action.\<close>

definition locally_valid :: "request \<Rightarrow> world \<Rightarrow> string \<Rightarrow> string \<Rightarrow> bool" where
  "locally_valid req w email password =
     (get (body req) ''email'' = JStr email \<and> 5 \<le> length (trim email)
      \<and> find (email_matches (email_pattern email)) (users (store w)) = None
      \<and> get (body req) ''password'' = JStr password \<and> 5 \<le> length (trim password)
      \<and> get (body req) ''passwordb'' = JStr password)"

text \<open>The payload the action hands to the hook.\<close>

definition register_payload :: "hmac \<Rightarrow> config \<Rightarrow> request \<Rightarrow> string \<Rightarrow> string \<Rightarrow> payload" where
  "register_payload H cfg req email password =
     \<lparr>p_req = req,
      p_user = put ''hash'' (JStr (digest_hex (H (secret cfg) password)))
                 (put ''email'' (JStr email) []),
      p_error = JUndefined\<rparr>"





subsection \<open>Listening\<close>

definition tab_opts :: listen_opts where
  "tab_opts = \<lparr>socket_id = ''sock1'', session = ''sess1''\<rparr>"

definition idle :: sync_state where
  "idle = \<lparr>rooms = [], listeners = []\<rparr>"

definition racing_schedule :: "step list" where
  "racing_schedule =
     [Join ''sock1'' ''user.42'', Leave ''sock1'' ''user.42'',
      Remove_listener (''42'', ''sess1'', ''tok''), Add_listener (''42'', ''sess1'', ''tok'')]"

subsection \<open>The browser-side user\<close>

definition signed_in :: eden_user where
  "signed_in =
     \<lparr>u_data = [(''_id'', JStr ''7''), (''name'', JStr ''grace'')],
      u_fields = [''_id'', ''name''], u_events = [(''update'', [])], store_user = True\<rparr>"

section \<open>Properties\<close>

subsection \<open>Strings and digests\<close>


lemma hex_digit_lower: "n < 16 \<Longrightarrow> hex_digit n \<in> lower_hex"
  unfolding hex_digit_def lower_hex_def by (rule nth_mem) simp

lemma hex_byte_lower: "set (hex_byte b) \<subseteq> lower_hex"
proof -
  have "unat b < 256" using unsigned_less[of b, where ?'a = nat] by simp
  then have hi: "unat b div 16 < 16" and lo: "unat b mod 16 < 16" by simp_all
  show ?thesis
    using hex_digit_lower[OF hi] hex_digit_lower[OF lo] by (simp add: hex_byte_def)
qed

lemma digest_hex_lower: "set (digest_hex bs) \<subseteq> lower_hex"
  unfolding digest_hex_def using hex_byte_lower by (induction bs) auto

lemma digest_hex_length: "length (digest_hex bs) = 2 * length bs"
  unfolding digest_hex_def by (induction bs) (simp_all add: hex_byte_def)

subsection \<open>Reading and writing fields, finding records\<close>

lemma get_put_same: "get (put k v u) k = v"
  by (induction u) (auto simp: get_def)

lemma get_put_other: "k' \<noteq> k \<Longrightarrow> get (put k v u) k' = get u k'"
  by (induction u) (auto simp: get_def)

lemma find_SomeD: "find P xs = Some y \<Longrightarrow> y \<in> set xs \<and> P y"
  by (induction xs) (auto split: if_splits)

lemma get_put_other': "k \<noteq> k' \<Longrightarrow> get (put k v u) k' = get u k'"
  by (rule get_put_other) simp

subsection \<open>\<open>User.authenticate\<close>\<close>

text \<open>
  Claim C2. For every stored digest and every supplied password, \<open>authenticate\<close> returns
  \<open>true\<close> exactly when the stored \<open>hash\<close> is the lowercase-hexadecimal digest of the
  password under the configured secret, and otherwise the failure with the reason
  \<open>Incorrect password\<close>; it has no exceptional result, and the instance is as it was.
\<close>

theorem authenticate_verdict:
  "authenticate H cfg u password =
     (if get u ''hash'' = JStr (digest_hex (H (secret cfg) password)) then Accepted
      else Rejected ''Incorrect password'', u)
   \<and> set (digest_hex (H (secret cfg) password)) \<subseteq> lower_hex
   \<and> length (digest_hex (H (secret cfg) password)) = 2 * length (H (secret cfg) password)"
  by (simp add: authenticate_def Let_def digest_hex_lower digest_hex_length)

theorem authenticate_verdict_witness:
  "authenticate sample_hmac sample_config [(''hash'', JStr ''2aff'')] ''secret''
     = (Accepted, [(''hash'', JStr ''2aff'')])
   \<and> authenticate sample_hmac sample_config [(''hash'', JStr ''2AFF'')] ''secret''
     = (Rejected ''Incorrect password'', [(''hash'', JStr ''2AFF'')])
   \<and> authenticate sample_hmac sample_config [(''hash'', JStr ''2aff'')] ''Secret''
     = (Rejected ''Incorrect password'', [(''hash'', JStr ''2aff'')])"
  using authenticate_verdict[of sample_hmac sample_config "[(''hash'', JStr ''2aff'')]" "''secret''"]
    authenticate_verdict[of sample_hmac sample_config "[(''hash'', JStr ''2AFF'')]" "''secret''"]
    authenticate_verdict[of sample_hmac sample_config "[(''hash'', JStr ''2aff'')]" "''Secret''"]
  by (simp add: get_def digest_hex_def hex_byte_def hex_digit_def sample_hmac_def
      sample_config_def)

subsection \<open>\<open>User.name\<close>\<close>








subsection \<open>The email pattern\<close>















subsection \<open>\<open>_authenticate\<close>\<close>





subsection \<open>\<open>User.sanitise\<close>\<close>












text \<open>The projection does not depend on the stored digest or token: writing another
  value to a field that is not public, and is none of those the method reads, changes
  nothing (no handler registered).\<close>

lemma sanitise_fields_cong:
  "\<forall>f\<in>set fs. get u f = get u' f \<Longrightarrow>
   sanitise_fields [] cfg u fs acc = sanitise_fields [] cfg u' fs acc"
proof (induction fs arbitrary: acc)
  case Nil
  show ?case by simp
next
  case (Cons f fs)
  then have g: "get u f = get u' f" and r: "\<forall>f\<in>set fs. get u f = get u' f" by simp_all
  show ?case
    by (cases "get u' f") (simp_all add: g Cons.IH[OF r] split: sum.splits)
qed

lemma name_put_other:
  assumes "k \<notin> set [''name'', ''first'', ''last'', ''username'', ''email'']"
  shows "name (put k v u) = name u"
proof -
  from assms have g: "get (put k v u) ''name'' = get u ''name''"
    "get (put k v u) ''first'' = get u ''first''" "get (put k v u) ''last'' = get u ''last''"
    "get (put k v u) ''username'' = get u ''username''"
    "get (put k v u) ''email'' = get u ''email''"
    by (simp_all add: get_put_other')
  show ?thesis unfolding name_def g by (rule refl)
qed

lemma base_projection_put_other:
  assumes "k \<notin> set [''_id'', ''created_at'', ''updated_at'']"
  shows "base_projection (put k v u) n = base_projection u n"
proof -
  from assms have g: "get (put k v u) ''_id'' = get u ''_id''"
    "get (put k v u) ''created_at'' = get u ''created_at''"
    "get (put k v u) ''updated_at'' = get u ''updated_at''"
    by (simp_all add: get_put_other')
  show ?thesis unfolding base_projection_def g by (rule refl)
qed

lemma sanitise_ignores_field:
  assumes "k \<notin> set (public_fields cfg)"
    and "k \<notin> set [''name'', ''first'', ''last'', ''username'', ''email'',
                    ''_id'', ''created_at'', ''updated_at'']"
  shows "sanitise [] cfg (put k v u) = sanitise [] cfg u"
proof -
  from assms(2) have n: "name (put k v u) = name u"
    by (intro name_put_other) simp
  from assms(2) have b: "\<And>n. base_projection (put k v u) n = base_projection u n"
    by (intro base_projection_put_other) simp
  have f: "\<forall>f\<in>set (public_fields cfg). get (put k v u) f = get u f"
    using assms(1) by (intro ballI get_put_other) auto
  show ?thesis
    by (simp add: n b sanitise_fields_cong[OF f] split: sum.splits)
qed

lemma sanitise_ignores_secrets:
  assumes "''hash'' \<notin> set (public_fields cfg)" and "''token'' \<notin> set (public_fields cfg)"
  shows "sanitise [] cfg (put ''hash'' h (put ''token'' t u)) = sanitise [] cfg u"
proof -
  have "sanitise [] cfg (put ''hash'' h (put ''token'' t u)) = sanitise [] cfg (put ''token'' t u)"
    by (rule sanitise_ignores_field) (use assms in simp_all)
  also have "\<dots> = sanitise [] cfg u"
    by (rule sanitise_ignores_field) (use assms in simp_all)
  finally show ?thesis .
qed

subsection \<open>\<open>_register\<close>\<close>

lemma load_acls_resolved: "load_acls coll def found = found @ resolved coll def"
  by (induction def arbitrary: found)
    (simp_all add: resolved_def List.map_filter_simps split: option.splits)

lemma resolved_stored:
  "r \<in> set (resolved coll entries) \<Longrightarrow>
   r \<in> set coll \<and> (\<exists>a\<in>set entries. get r ''name'' = get a ''name'')"
proof (induction entries)
  case Nil
  then show ?case by (simp add: resolved_def List.map_filter_simps)
next
  case (Cons a entries)
  show ?case
  proof (cases "find (\<lambda>r. get r ''name'' = get a ''name'') coll")
    case None
    with Cons show ?thesis by (auto simp: resolved_def List.map_filter_simps)
  next
    case (Some y)
    from find_SomeD[OF Some] have "y \<in> set coll" "get y ''name'' = get a ''name''" by simp_all
    with Cons Some show ?thesis by (auto simp: resolved_def List.map_filter_simps)
  qed
qed

text \<open>
  Claim C7. In the pre-hook of \<open>user.register\<close>, when there is no Principal yet (the
  candidate is not saved before the hook has run), the candidate's \<open>acl\<close> is set to the
  resolved records of the configured default list followed by the configured admin
  list; when there is one, to the resolved records of the default list only. In both
  cases a record is attached only if it is a stored Acl record with the name of a
  configured entry.
\<close>

theorem register_attaches_acls:
  "get (p_user (priv_register cfg d obj)) ''acl'' =
     JArr (map JModel
       (resolved (acls d)
          (if users d = [] then or_empty (acl_default cfg) @ or_empty (acl_admin cfg)
           else or_empty (acl_default cfg))))
   \<and> (\<forall>entries. \<forall>r\<in>set (resolved (acls d) entries).
          r \<in> set (acls d) \<and> (\<exists>a\<in>set entries. get r ''name'' = get a ''name''))"
  using resolved_stored
  by (simp add: priv_register_def Let_def get_put_same load_acls_resolved)

lemma resolved_samples:
  "resolved [acl_user] [[(''name'', JStr ''user'')], [(''name'', JStr ''admin'')]] = [acl_user]"
  "resolved [acl_user, acl_admin_rec] [[(''name'', JStr ''user'')], [(''name'', JStr ''admin'')]]
     = [acl_user, acl_admin_rec]"
  "resolved [acl_user, acl_admin_rec] [[(''name'', JStr ''user'')]] = [acl_user]"
  by (simp_all add: resolved_def acl_user_def acl_admin_rec_def get_def)

theorem register_attaches_acls_witness:
  "get (p_user (priv_register sample_config (acl_db2 []) candidate)) ''acl''
     = JArr [JModel acl_user, JModel acl_admin_rec]
   \<and> get (p_user (priv_register sample_config (acl_db2 [user_x]) candidate)) ''acl''
     = JArr [JModel acl_user]
   \<and> get (p_user (priv_register sample_config (acl_db []) candidate)) ''acl''
     = JArr [JModel acl_user]"
  using register_attaches_acls[of sample_config "acl_db2 []" candidate]
    register_attaches_acls[of sample_config "acl_db2 [user_x]" candidate]
    register_attaches_acls[of sample_config "acl_db []" candidate]
  by (simp add: acl_db_def acl_db2_def sample_config_def or_empty_def resolved_samples)

subsection \<open>\<open>_acl\<close>\<close>


















subsection \<open>\<open>resetSubmitAction\<close>\<close>













subsection \<open>\<open>registerSubmitAction\<close>\<close>

lemma register_valid_hook:
  assumes "locally_valid req w email password"
  shows "registerSubmitAction H cfg policy hs shs req w =
     (let (w', user', prevented) =
            hook policy hs (store w) (register_payload H cfg req email password)
              (register_finalizer req w) (\<lambda>obj. (w, p_user obj, False))
      in if \<not> prevented then Inr (register_login shs cfg req user' w') else Inr w')"
  using assms
  by (simp add: locally_valid_def registerSubmitAction_def register_payload_def Let_def
      split: prod.splits)

text \<open>Without a veto the candidate is saved and logged in.\<close>

lemma register_no_veto:
  assumes "locally_valid req w email password"
    and "\<not> truthy (p_error (run_pre hs (store w) (register_payload H cfg req email password)))"
  shows "registerSubmitAction H cfg policy hs shs req w =
     (let (user, w') = save_new_user
            (p_user (run_pre hs (store w) (register_payload H cfg req email password))) w
      in Inr (register_login shs cfg req user w'))"
  using assms(2)
  by (simp add: register_valid_hook[OF assms(1)] hook_def register_finalizer_def Let_def
      split: prod.splits)



text \<open>Under the dispatcher of the spec's wording the finalizer does not run on a vetoed
  payload, the local flag stays unset, and the action logs the unsaved candidate in.\<close>

lemma register_veto_skipped_finalizer:
  assumes "locally_valid req w email password"
    and "truthy (p_error (run_pre hs (store w) (register_payload H cfg req email password)))"
  shows "registerSubmitAction H cfg Finalizer_unless_vetoed hs shs req w
           = Inr (register_login shs cfg req
                    (p_user (run_pre hs (store w) (register_payload H cfg req email password))) w)"
  using assms(2)
  by (simp add: register_valid_hook[OF assms(1)] hook_def Let_def)






subsection \<open>\<open>listenAction\<close> and \<open>deafenAction\<close>\<close>

text \<open>Run one after the other, in either order and from any state, a listen and a deafen
  on one key end in agreement: neither registered nor joined, or both.\<close>

lemma listen_then_deafen_agree:
  "truthy i \<Longrightarrow>
   agree i uuid opts (run_steps (listenAction i uuid opts @ deafenAction i uuid opts) st)"
  by (simp add: listenAction_def deafenAction_def run_steps_def agree_def)

lemma deafen_then_listen_agree:
  "truthy i \<Longrightarrow>
   agree i uuid opts (run_steps (deafenAction i uuid opts @ listenAction i uuid opts) st)"
  by (simp add: listenAction_def deafenAction_def run_steps_def agree_def)

text \<open>
  Claim C5. A listen or deafen call performs its bookkeeping and its join or leave as
  one atomic unit, and a listen and a deafen racing on one key end registered and
  joined, or neither. The code joins (leaves) before it awaits \<open>User.findById\<close> and
  calls the registry after: in the schedule below the deafen's lookup resolves first,
  and the key ends registered while the socket has left the room; and after the first
  step of a listen alone the socket is in the room with no registration.
\<close>

theorem listen_deafen_race:
  "racing_schedule \<in> set (interleavings (listenAction (JStr ''42'') ''tok'' tab_opts)
                                        (deafenAction (JStr ''42'') ''tok'' tab_opts))
   \<and> run_steps racing_schedule idle
       = \<lparr>rooms = [], listeners = [(''42'', ''sess1'', ''tok'')]\<rparr>
   \<and> \<not> agree (JStr ''42'') ''tok'' tab_opts (run_steps racing_schedule idle)
   \<and> \<not> agree (JStr ''42'') ''tok'' tab_opts
         (run_steps (take 1 (listenAction (JStr ''42'') ''tok'' tab_opts)) idle)"
  by (simp add: racing_schedule_def listenAction_def deafenAction_def tab_opts_def idle_def
      run_steps_def agree_def)

subsection \<open>\<open>EdenUser.__update\<close>\<close>

text \<open>
  Claim C10. When the channel \<open>user\<close> delivers \<open>false\<close>, \<open>__update\<close> resets the data to the
  empty object, after which \<open>exists()\<close> is false; nothing is emitted, neither an event of
  a field nor \<open>update\<close>.
\<close>

theorem update_false_clears:
  "priv_update J (JBool False) st = Inr (st\<lparr>store_user := True, u_data := []\<rparr>)
   \<and> \<not> exists_user (st\<lparr>store_user := True, u_data := []\<rparr>)
   \<and> u_events (st\<lparr>store_user := True, u_data := []\<rparr>) = u_events st"
  by (simp add: priv_update_def clear_def exists_user_def eu_get_def Let_def)

theorem update_false_clears_witness:
  "exists_user signed_in
   \<and> priv_update (\<lambda>v. v) (JBool False) signed_in
       = Inr \<lparr>u_data = [], u_fields = [''_id'', ''name''], u_events = [(''update'', [])],
              store_user = True\<rparr>
   \<and> \<not> exists_user \<lparr>u_data = [], u_fields = [''_id'', ''name''], u_events = [(''update'', [])],
              store_user = True\<rparr>"
  using update_false_clears[of "\<lambda>v. v" signed_in]
  by (simp add: signed_in_def exists_user_def eu_get_def Let_def)

end
